theory Spec2Isabelle
  imports Complex_Main
begin

section \<open>Strings and characters\<close>

text \<open>
  A Python \<open>str\<close> is a sequence of Unicode code points, here a list of natural numbers.
  Text in the program itself is ASCII and is written \<open>ascii ''...''\<close>; the signs that
  the program prints are given by their code points.
\<close>

type_synonym str = "nat list"

definition code :: "char \<Rightarrow> nat" where
  "code c = of_char c"

definition ascii :: "string \<Rightarrow> str" where
  "ascii s = map code s"

text \<open>
  What Python knows about the characters beyond ASCII comes from the Unicode database
  of the interpreter, which is no part of the program: whether a character is
  whitespace (\<open>str.isspace\<close>), alphanumeric (\<open>str.isalnum\<close>) or a digit
  (\<open>str.isdigit\<close>), its value as a decimal digit if it has one, and the lower and the
  upper case of a text that has such characters. It is a parameter of the model. For
  the ASCII characters the functions below say what every Python 3 does.
\<close>

record unicode =
  uni_space :: "nat \<Rightarrow> bool"
  uni_alnum :: "nat \<Rightarrow> bool"
  uni_digit :: "nat \<Rightarrow> bool"
  uni_decimal :: "nat \<Rightarrow> nat option"
  uni_lower :: "str \<Rightarrow> str"
  uni_upper :: "str \<Rightarrow> str"

definition is_ascii :: "nat \<Rightarrow> bool" where
  "is_ascii c = (c < 128)"

text \<open>\<open>\s\<close> of a \<open>str\<close> pattern, and \<open>str.isspace\<close> of one character.\<close>

definition is_space :: "unicode \<Rightarrow> nat \<Rightarrow> bool" where
  "is_space U c =
     (if is_ascii c then (9 \<le> c \<and> c \<le> 13) \<or> (28 \<le> c \<and> c \<le> 32) else uni_space U c)"

text \<open>\<open>\w\<close> of a \<open>str\<close> pattern: the alphanumeric characters and the underscore.\<close>

definition is_word :: "unicode \<Rightarrow> nat \<Rightarrow> bool" where
  "is_word U c =
     (if is_ascii c
      then (48 \<le> c \<and> c \<le> 57) \<or> (65 \<le> c \<and> c \<le> 90) \<or> c = 95 \<or> (97 \<le> c \<and> c \<le> 122)
      else uni_alnum U c)"

definition lower_ascii :: "nat \<Rightarrow> nat" where
  "lower_ascii c = (if 65 \<le> c \<and> c \<le> 90 then c + 32 else c)"

definition upper_ascii :: "nat \<Rightarrow> nat" where
  "upper_ascii c = (if 97 \<le> c \<and> c \<le> 122 then c - 32 else c)"

text \<open>\<open>str.lower\<close> and \<open>str.upper\<close>.\<close>

definition lower :: "unicode \<Rightarrow> str \<Rightarrow> str" where
  "lower U s = (if list_all is_ascii s then map lower_ascii s else uni_lower U s)"

definition upper :: "unicode \<Rightarrow> str \<Rightarrow> str" where
  "upper U s = (if list_all is_ascii s then map upper_ascii s else uni_upper U s)"

text \<open>\<open>str.strip()\<close>.\<close>

definition strip :: "unicode \<Rightarrow> str \<Rightarrow> str" where
  "strip U s = rev (dropWhile (is_space U) (rev (dropWhile (is_space U) s)))"

text \<open>\<open>str.split()\<close>: the maximal runs of characters that are not whitespace.\<close>

fun split_ws :: "unicode \<Rightarrow> str \<Rightarrow> str \<Rightarrow> str list" where
  "split_ws U cur [] = (if cur = [] then [] else [cur])"
| "split_ws U cur (c # cs) =
     (if is_space U c then (if cur = [] then split_ws U [] cs else cur # split_ws U [] cs)
      else split_ws U (cur @ [c]) cs)"

definition split :: "unicode \<Rightarrow> str \<Rightarrow> str list" where
  "split U s = split_ws U [] s"

text \<open>\<open>sub in s\<close> on strings.\<close>

fun starts_with :: "str \<Rightarrow> str \<Rightarrow> bool" where
  "starts_with [] s = True"
| "starts_with (p # ps) [] = False"
| "starts_with (p # ps) (x # xs) = (p = x \<and> starts_with ps xs)"

fun contains :: "str \<Rightarrow> str \<Rightarrow> bool" where
  "contains sub [] = (sub = [])"
| "contains sub (x # xs) = (starts_with sub (x # xs) \<or> contains sub xs)"

section \<open>The success pattern of the transformation log\<close>

text \<open>
  \<open>re.compile(r"\|\s*([^|]+\.\w+)\s*\|\s*0\s*\|")\<close> is a sequence of literal characters
  and greedy repetitions of character classes, with one capturing group. The matcher
  below is the backtracking matcher of Python's \<open>re\<close> on such sequences: a greedy
  repetition first takes as many characters as it can and gives them back one at a time
  when the rest of the pattern fails.
\<close>

datatype cclass = Whitespace | WordChar | NotChar nat

fun in_class :: "unicode \<Rightarrow> cclass \<Rightarrow> nat \<Rightarrow> bool" where
  "in_class U Whitespace c = is_space U c"
| "in_class U WordChar c = is_word U c"
| "in_class U (NotChar d) c = (c \<noteq> d)"

datatype re_item = Lit nat | Star cclass | Plus cclass | GroupOpen | GroupClose

text \<open>
  The capture is kept as the pair of the input left at the opening and at the closing
  parenthesis of the group.
\<close>

type_synonym capture = "str \<times> str"

fun re_match :: "unicode \<Rightarrow> re_item list \<Rightarrow> str \<Rightarrow> capture \<Rightarrow> capture option" where
  "re_match U [] s cap = Some cap"
| "re_match U (Lit c # ps) [] cap = None"
| "re_match U (Lit c # ps) (x # xs) cap = (if x = c then re_match U ps xs cap else None)"
| "re_match U (Star k # ps) [] cap = re_match U ps [] cap"
| "re_match U (Star k # ps) (x # xs) cap =
     (if in_class U k x
      then (case re_match U (Star k # ps) xs cap of
              Some r \<Rightarrow> Some r
            | None \<Rightarrow> re_match U ps (x # xs) cap)
      else re_match U ps (x # xs) cap)"
| "re_match U (Plus k # ps) [] cap = None"
| "re_match U (Plus k # ps) (x # xs) cap =
     (if in_class U k x then re_match U (Star k # ps) xs cap else None)"
| "re_match U (GroupOpen # ps) s cap = re_match U ps s (s, snd cap)"
| "re_match U (GroupClose # ps) s cap = re_match U ps s (fst cap, s)"

text \<open>\<open>pattern.search\<close>: the first position of the line, from the left, with a match.\<close>

fun re_search :: "unicode \<Rightarrow> re_item list \<Rightarrow> str \<Rightarrow> capture option" where
  "re_search U ps [] = re_match U ps [] ([], [])"
| "re_search U ps (x # xs) =
     (case re_match U ps (x # xs) (x # xs, x # xs) of
        Some r \<Rightarrow> Some r
      | None \<Rightarrow> re_search U ps xs)"

text \<open>\<open>match.group(1)\<close>.\<close>

definition group1 :: "capture \<Rightarrow> str" where
  "group1 cap = take (length (fst cap) - length (snd cap)) (fst cap)"

definition pattern :: "re_item list" where
  "pattern = [Lit (code (CHR ''|'')), Star Whitespace,
              GroupOpen, Plus (NotChar (code (CHR ''|''))), Lit (code (CHR ''.'')), Plus WordChar,
              GroupClose,
              Star Whitespace, Lit (code (CHR ''|'')), Star Whitespace, Lit (code (CHR ''0'')),
              Star Whitespace, Lit (code (CHR ''|''))]"

section \<open>Reading a text file line by line\<close>

text \<open>
  \<open>open(log_file)\<close> reads in text mode with universal newlines: \<open>\r\n\<close> and a lone
  \<open>\r\<close> become \<open>\n\<close>, and iterating over the file yields each line with its
  newline, the last line without one when the file does not end in a newline. The
  content of a file is its text, decoded.
\<close>

fun translate_newlines :: "str \<Rightarrow> str" where
  "translate_newlines [] = []"
| "translate_newlines [c] = (if c = 13 then [10] else [c])"
| "translate_newlines (c # d # cs) =
     (if c = 13
      then (if d = 10 then 10 # translate_newlines cs
            else 10 # translate_newlines (d # cs))
      else c # translate_newlines (d # cs))"

fun split_lines :: "str \<Rightarrow> str \<Rightarrow> str list" where
  "split_lines cur [] = (if cur = [] then [] else [cur])"
| "split_lines cur (c # cs) =
     (if c = 10 then (cur @ [c]) # split_lines [] cs else split_lines (cur @ [c]) cs)"

definition file_lines :: "str \<Rightarrow> str list" where
  "file_lines content = split_lines [] (translate_newlines content)"

section \<open>Artifact Selector\<close>

text \<open>
  The loop of \<open>_identify_successful_artifacts\<close> over the lines of the log, with the list
  \<open>successful\<close> as accumulator.
\<close>

fun scan_log :: "unicode \<Rightarrow> str list \<Rightarrow> str list \<Rightarrow> str list" where
  "scan_log U [] successful = successful"
| "scan_log U (line # rest) successful =
     (case re_search U pattern line of
        Some m \<Rightarrow> scan_log U rest (successful @ [group1 m])
      | None \<Rightarrow> scan_log U rest successful)"

text \<open>
  \<open>_identify_successful_artifacts\<close>, given what \<open>logs/transformation.log\<close> holds:
  \<open>None\<close> when \<open>os.path.exists\<close> is false, the text of the file otherwise.
\<close>

definition identify_successful_artifacts :: "unicode \<Rightarrow> str option \<Rightarrow> str list" where
  "identify_successful_artifacts U log_file =
     (case log_file of
        None \<Rightarrow> []
      | Some content \<Rightarrow> scan_log U (file_lines content) [])"

section \<open>Python numbers\<close>

text \<open>
  A Python \<open>int\<close> is a HOL \<open>int\<close>. A Python \<open>float\<close> is an IEEE 754 double; it is
  modelled by the rational number it denotes, and every arithmetic operation rounds its
  exact result to the nearest double, ties to even. Overflow to infinity and gradual
  underflow are left out: they need a quotient of two integers beyond \<open>2 ^ 1000\<close>, and
  the integers here are lengths of lists and counts of files.
\<close>

type_synonym pyfloat = rat

datatype exn = KeyboardInterrupt | ZeroDivisionError | ValueError | Exception str | SystemExit int

fun bit_length :: "nat \<Rightarrow> nat" where
  "bit_length n = (if n = 0 then 0 else Suc (bit_length (n div 2)))"

text \<open>The integer \<open>e\<close> with \<open>2 ^ e \<le> q < 2 ^ (e + 1)\<close>, for \<open>q > 0\<close>.\<close>

definition ilog2 :: "rat \<Rightarrow> int" where
  "ilog2 q = (if 1 \<le> q then int (bit_length (nat \<lfloor>q\<rfloor>)) - 1
              else - int (bit_length (nat (\<lceil>1 / q\<rceil> - 1))))"

definition round_half_even :: "rat \<Rightarrow> int" where
  "round_half_even q =
     (let f = \<lfloor>q\<rfloor>; r = q - of_int f
      in if r < 1 / 2 then f
         else if 1 / 2 < r then f + 1
         else if even f then f else f + 1)"

text \<open>Rounding to 53 significant bits.\<close>

definition round_pos :: "rat \<Rightarrow> rat" where
  "round_pos q = (let e = ilog2 q - 52 in of_int (round_half_even (q / 2 powi e)) * 2 powi e)"

definition fl_round :: "rat \<Rightarrow> pyfloat" where
  "fl_round q = (if q = 0 then 0 else if 0 < q then round_pos q else - round_pos (- q))"

text \<open>\<open>a / b\<close> on two \<open>int\<close>s: true division, which raises on a zero divisor.\<close>

definition int_truediv :: "int \<Rightarrow> int \<Rightarrow> exn + pyfloat" where
  "int_truediv a b = (if b = 0 then Inl ZeroDivisionError else Inr (fl_round (of_int a / of_int b)))"

text \<open>\<open>x * n\<close> on a \<open>float\<close> and an \<open>int\<close>.\<close>

definition float_mul_int :: "pyfloat \<Rightarrow> int \<Rightarrow> pyfloat" where
  "float_mul_int x n = fl_round (x * fl_round (of_int n))"

section \<open>Metrics Calculator\<close>

record metrics =
  total_artifacts :: int
  successful_transforms :: int
  copied_artifacts :: int
  transform_success_rate :: pyfloat
  build_success_rate :: pyfloat

definition counted_line :: "str \<Rightarrow> bool" where
  "counted_line line =
     (contains (ascii ''|'') line \<and>
      list_ex (\<lambda>ext. contains ext line) [ascii ''.src'', ascii ''.dat'', ascii ''.cfg''])"

fun count_artifacts :: "str list \<Rightarrow> int \<Rightarrow> int" where
  "count_artifacts [] tot = tot"
| "count_artifacts (line # rest) tot =
     (if counted_line line then count_artifacts rest (tot + 1)
      else count_artifacts rest tot)"

text \<open>The count of total artifacts, from what \<open>logs/transformation.log\<close> holds.\<close>

definition count_total :: "str option \<Rightarrow> int" where
  "count_total log_file =
     (case log_file of
        None \<Rightarrow> 0
      | Some content \<Rightarrow> count_artifacts (file_lines content) 0)"

text \<open>
  \<open>(n / total_artifacts * 100) if total_artifacts else 0\<close>. The \<open>int\<close> \<open>0\<close> of
  the second branch and the \<open>float\<close> \<open>0.0\<close> are the same number here, as they are
  equal in Python.
\<close>

definition rate :: "int \<Rightarrow> int \<Rightarrow> exn + pyfloat" where
  "rate n tot =
     (if tot \<noteq> 0
      then (case int_truediv n tot of
              Inl e \<Rightarrow> Inl e
            | Inr q \<Rightarrow> Inr (float_mul_int q 100))
      else Inr 0)"

text \<open>\<open>_calculate_metrics\<close>.\<close>

definition calculate_metrics :: "str option \<Rightarrow> str list \<Rightarrow> int \<Rightarrow> exn + metrics" where
  "calculate_metrics log_file successful_artifacts copied_count =
     (let tot = count_total log_file
      in case rate (int (length successful_artifacts)) tot of
           Inl e \<Rightarrow> Inl e
         | Inr transform_rate \<Rightarrow>
             (case rate copied_count tot of
                Inl e \<Rightarrow> Inl e
              | Inr build_rate \<Rightarrow>
                  Inr \<lparr>total_artifacts = tot,
                       successful_transforms = int (length successful_artifacts),
                       copied_artifacts = copied_count,
                       transform_success_rate = transform_rate,
                       build_success_rate = build_rate\<rparr>))"

section \<open>Paths\<close>

text \<open>\<open>os.path\<close> on a POSIX system.\<close>

definition path_join :: "str \<Rightarrow> str \<Rightarrow> str" where
  "path_join a b =
     (if starts_with (ascii ''/'') b then b
      else if a = [] \<or> last a = code (CHR ''/'') then a @ b
      else a @ ascii ''/'' @ b)"

text \<open>\<open>str.rfind\<close> of one character: the last index where it occurs, or \<open>-1\<close>.\<close>

fun rfind_from :: "nat \<Rightarrow> str \<Rightarrow> int \<Rightarrow> int \<Rightarrow> int" where
  "rfind_from c [] i found = found"
| "rfind_from c (x # xs) i found = rfind_from c xs (i + 1) (if x = c then i else found)"

definition rfind :: "nat \<Rightarrow> str \<Rightarrow> int" where
  "rfind c s = rfind_from c s 0 (- 1)"

definition basename :: "str \<Rightarrow> str" where
  "basename p = drop (nat (rfind (code (CHR ''/'')) p + 1)) p"

text \<open>
  \<open>os.path.splitext\<close>: the extension starts at the last dot of the last component,
  unless only dots come before it in that component.
\<close>

definition splitext :: "str \<Rightarrow> str \<times> str" where
  "splitext p =
     (let sepIndex = rfind (code (CHR ''/'')) p; dotIndex = rfind (code (CHR ''.'')) p
      in if sepIndex < dotIndex \<and>
            list_ex (\<lambda>c. c \<noteq> code (CHR ''.''))
              (take (nat (dotIndex - (sepIndex + 1))) (drop (nat (sepIndex + 1)) p))
         then (take (nat dotIndex) p, drop (nat dotIndex) p)
         else (p, []))"

section \<open>Formatting\<close>

fun digits :: "nat \<Rightarrow> str" where
  "digits n = (if n < 10 then [48 + n] else digits (n div 10) @ [48 + n mod 10])"

text \<open>\<open>str(i)\<close>, and \<open>{i}\<close> in an f-string, for an \<open>int\<close>.\<close>

definition str_int :: "int \<Rightarrow> str" where
  "str_int i = (if i < 0 then ascii ''-'' @ digits (nat (- i)) else digits (nat i))"

text \<open>
  \<open>{x:.2f}\<close>: the exact value of the float, rounded to two decimals, ties to even.
\<close>

definition format_2f :: "pyfloat \<Rightarrow> str" where
  "format_2f x =
     (let n = nat (round_half_even (\<bar>x\<bar> * 100))
      in (if x < 0 then ascii ''-'' else []) @ digits (n div 100) @ ascii ''.'' @
         [48 + n mod 100 div 10, 48 + n mod 10])"

text \<open>
  \<open>str.isdigit\<close>, and \<open>int(s)\<close> on a string for which it holds: the number in decimal
  when every character is a decimal digit, a \<open>ValueError\<close> otherwise.
\<close>

definition is_digit :: "unicode \<Rightarrow> nat \<Rightarrow> bool" where
  "is_digit U c = (if is_ascii c then 48 \<le> c \<and> c \<le> 57 else uni_digit U c)"

definition isdigit :: "unicode \<Rightarrow> str \<Rightarrow> bool" where
  "isdigit U s = (s \<noteq> [] \<and> list_all (is_digit U) s)"

definition decimal :: "unicode \<Rightarrow> nat \<Rightarrow> nat option" where
  "decimal U c = (if is_ascii c then (if 48 \<le> c \<and> c \<le> 57 then Some (c - 48) else None)
                  else uni_decimal U c)"

fun int_of_digits :: "unicode \<Rightarrow> str \<Rightarrow> int \<Rightarrow> exn + int" where
  "int_of_digits U [] n = Inr n"
| "int_of_digits U (c # cs) n =
     (case decimal U c of
        None \<Rightarrow> Inl ValueError
      | Some d \<Rightarrow> int_of_digits U cs (10 * n + int d))"

text \<open>The signs the program prints, and the newline.\<close>

definition cross_mark :: str where
  "cross_mark = [0x274C]"

definition check_mark :: str where
  "check_mark = [0x2713]"

definition warning_sign :: str where
  "warning_sign = [0x26A0]"

definition right_arrow :: str where
  "right_arrow = [0x2192]"

definition newline :: str where
  "newline = [10]"

section \<open>The orchestrator and its surroundings\<close>

text \<open>
  Everything the program does to the outside is an event, in the order it happens:
  a line printed by \<open>print\<close>, a prompt written by \<open>input\<close>, a shell command started by
  \<open>subprocess.call\<close> (the command, the log file its output is redirected to, the
  working directory, and what the call came back with), and the operations on the file
  system and the process environment.
\<close>

text \<open>
  What \<open>subprocess.call\<close> comes back with: the exit status of the command, a
  \<open>KeyboardInterrupt\<close> when the user interrupts the wait, or another exception.
\<close>

datatype outcome = Exit int | Interrupted | Failed str

datatype event =
    Print str
  | Prompt str
  | Call str str str outcome
  | MakeDirs str
  | RemoveTree str
  | CopyFile str str
  | SetEnv str str

text \<open>A directory tree as \<open>os.walk\<close> lists it: the files and the sub-directories by name.\<close>

datatype dir = Dir (dir_files: "str list") (dir_subdirs: "(str \<times> dir) list")

text \<open>
  The surroundings of the process, over a state \<open>'w\<close> of the outside world: what a shell
  command returns and how it changes the world, how an operation of the orchestrator
  on the file system or the environment changes it, and what the orchestrator reads
  from it. \<open>read_file\<close> gives
  \<open>None\<close> for a path where \<open>os.path.exists\<close> is false, \<open>tree\<close> gives \<open>None\<close> where
  \<open>os.walk\<close> finds no directory, \<open>list_dir\<close> gives \<open>None\<close> where \<open>os.listdir\<close>
  raises, \<open>script_dir\<close> is the directory of the program file, and \<open>uni\<close> is the
  Unicode database of the interpreter.
  The operations of the orchestrator on the file system are taken to succeed.
\<close>

record 'w surroundings =
  shell :: "str \<Rightarrow> str \<Rightarrow> str \<Rightarrow> 'w \<Rightarrow> outcome \<times> 'w"
  effect :: "event \<Rightarrow> 'w \<Rightarrow> 'w"
  clock :: "'w \<Rightarrow> pyfloat"
  read_file :: "'w \<Rightarrow> str \<Rightarrow> str option"
  tree :: "'w \<Rightarrow> str \<Rightarrow> dir option"
  which :: "'w \<Rightarrow> str \<Rightarrow> str option"
  is_dir :: "'w \<Rightarrow> str \<Rightarrow> bool"
  path_exists :: "'w \<Rightarrow> str \<Rightarrow> bool"
  list_dir :: "'w \<Rightarrow> str \<Rightarrow> str list option"
  script_dir :: str
  uni :: unicode

datatype phase = Extract | Validate | Analyze | Transform | Build

text \<open>
  The fields of \<open>PipelineOrchestrator\<close>, with the events of the run so far and the
  state of the world.
\<close>

record 'w state =
  project_dir :: str
  log_dir :: str
  execution_summary :: "phase \<Rightarrow> str list"
  events :: "event list"
  world :: 'w

text \<open>A statement either returns a value or raises, and leaves a state behind.\<close>

type_synonym ('w, 'a) action = "'w state \<Rightarrow> (exn + 'a) \<times> 'w state"

definition ret :: "'a \<Rightarrow> ('w, 'a) action" where
  "ret x = (\<lambda>s. (Inr x, s))"

definition raise :: "exn \<Rightarrow> ('w, 'a) action" where
  "raise e = (\<lambda>s. (Inl e, s))"

definition bnd :: "('w, 'a) action \<Rightarrow> ('a \<Rightarrow> ('w, 'b) action) \<Rightarrow> ('w, 'b) action" where
  "bnd m f = (\<lambda>s. case m s of (Inl e, s') \<Rightarrow> (Inl e, s') | (Inr x, s') \<Rightarrow> f x s')"

text \<open>An operation of the orchestrator on the file system or on the environment.\<close>

definition emit :: "'w surroundings \<Rightarrow> event \<Rightarrow> ('w, unit) action" where
  "emit E ev = (\<lambda>s. (Inr (), s\<lparr>events := events s @ [ev], world := effect E ev (world s)\<rparr>))"

text \<open>\<open>print(text)\<close>. The standard output is no part of the world that the program reads.\<close>

definition print :: "str \<Rightarrow> ('w, unit) action" where
  "print text = (\<lambda>s. (Inr (), s\<lparr>events := events s @ [Print text]\<rparr>))"

text \<open>\<open>int(time.time())\<close>.\<close>

definition time_int :: "'w surroundings \<Rightarrow> 'w \<Rightarrow> int" where
  "time_int E w = (if 0 \<le> clock E w then \<lfloor>clock E w\<rfloor> else \<lceil>clock E w\<rceil>)"

text \<open>\<open>subprocess.call(f'{cmd} > "{log_file}" 2>&1', shell=True, cwd=cwd)\<close>.\<close>

definition call :: "'w surroundings \<Rightarrow> str \<Rightarrow> str \<Rightarrow> str \<Rightarrow> ('w, int) action" where
  "call E cmd log_file cwd = (\<lambda>s.
     let result = fst (shell E cmd log_file cwd (world s));
         s' = s\<lparr>events := events s @ [Call cmd log_file cwd result],
                world := snd (shell E cmd log_file cwd (world s))\<rparr>
     in case result of
          Exit rc \<Rightarrow> (Inr rc, s')
        | Interrupted \<Rightarrow> (Inl KeyboardInterrupt, s')
        | Failed msg \<Rightarrow> (Inl (Exception msg), s'))"

subsection \<open>Command Runner\<close>

definition run_command ::
  "'w surroundings \<Rightarrow> str \<Rightarrow> str \<Rightarrow> str option \<Rightarrow> ('w, int) action" where
  "run_command E cmd desc cwd_arg = (\<lambda>s.
     let cwd = (case cwd_arg of None \<Rightarrow> project_dir s | Some d \<Rightarrow> d)
     in bnd (emit E (MakeDirs (log_dir s))) (\<lambda>_ s1.
          let script_name =
                (if 2 < length (split (uni E) cmd) then split (uni E) cmd ! 2
                 else map (\<lambda>c. if c = code (CHR '' '') then code (CHR ''_'') else c) cmd);
              script_name = basename script_name;
              log_file = path_join (log_dir s1)
                (fst (splitext script_name) @ ascii ''_'' @ str_int (time_int E (world s1)) @ ascii ''.log'')
          in call E cmd log_file cwd s1) s)"

subsection \<open>Phase Executor\<close>

definition banner :: "str \<Rightarrow> ('w, unit) action" where
  "banner title =
     bnd (print (newline @ replicate 60 (code (CHR ''='')))) (\<lambda>_.
     bnd (print title) (\<lambda>_.
     print (replicate 60 (code (CHR ''='')) @ newline)))"

definition append_summary :: "phase \<Rightarrow> str \<Rightarrow> ('w, unit) action" where
  "append_summary ph item = (\<lambda>s.
     (Inr (), s\<lparr>execution_summary := (execution_summary s)(ph := execution_summary s ph @ [item])\<rparr>))"

fun print_items :: "int \<Rightarrow> str list \<Rightarrow> ('w, unit) action" where
  "print_items idx [] = ret ()"
| "print_items idx (item # items) =
     bnd (print (ascii ''  '' @ str_int idx @ ascii ''. '' @ item)) (\<lambda>_. print_items (idx + 1) items)"

text \<open>\<open>_print_phase_summary\<close>.\<close>

definition print_phase_summary :: "phase \<Rightarrow> str \<Rightarrow> ('w, unit) action" where
  "print_phase_summary ph phase_name = (\<lambda>s.
     let items = execution_summary s ph
     in if items \<noteq> []
        then bnd (print (newline @ phase_name @ ascii '' Summary:'')) (\<lambda>_.
             bnd (print (replicate 40 (code (CHR ''-'')))) (\<lambda>_.
             bnd (print_items 1 items) (\<lambda>_.
             print []))) s
        else ret () s)"

text \<open>
  The loop that the four phase methods share: \<open>desc_of\<close>, \<open>cmd_of\<close> and \<open>entry_of\<close> give
  the description, the command and the summary entry of a sub-task. The result
  \<open>False\<close> is the \<open>return False\<close> inside the loop, \<open>True\<close> is the loop running to its end.
\<close>

fun run_subtasks ::
  "'w surroundings \<Rightarrow> phase \<Rightarrow> ('i \<Rightarrow> str) \<Rightarrow> ('i \<Rightarrow> str) \<Rightarrow> ('i \<Rightarrow> str) \<Rightarrow> 'i list
     \<Rightarrow> ('w, bool) action" where
  "run_subtasks E ph desc_of cmd_of entry_of [] = ret True"
| "run_subtasks E ph desc_of cmd_of entry_of (x # xs) =
     bnd (run_command E (cmd_of x) (desc_of x) None) (\<lambda>rc.
       if rc \<noteq> 0
       then bnd (print (cross_mark @ ascii '' '' @ desc_of x @ ascii '' failed.'')) (\<lambda>_. ret False)
       else bnd (append_summary ph (entry_of x)) (\<lambda>_.
            bnd (print (check_mark @ ascii '' '' @ desc_of x @ ascii '' completed'')) (\<lambda>_.
            run_subtasks E ph desc_of cmd_of entry_of xs)))"

definition run_phase ::
  "'w surroundings \<Rightarrow> phase \<Rightarrow> str \<Rightarrow> str \<Rightarrow> ('i \<Rightarrow> str) \<Rightarrow> ('i \<Rightarrow> str)
     \<Rightarrow> ('i \<Rightarrow> str) \<Rightarrow> 'i list \<Rightarrow> ('w, bool) action" where
  "run_phase E ph title phase_name desc_of cmd_of entry_of items =
     bnd (banner title) (\<lambda>_.
     bnd (run_subtasks E ph desc_of cmd_of entry_of items) (\<lambda>finished.
       if finished then bnd (print_phase_summary ph phase_name) (\<lambda>_. ret True)
       else ret False))"

definition extract_phase :: "'w surroundings \<Rightarrow> str list \<Rightarrow> ('w, bool) action" where
  "extract_phase E file_types =
     run_phase E Extract (ascii ''PHASE 1: EXTRACTION'') (ascii ''Extraction'')
       (\<lambda>file_type. ascii ''Extracting '' @ file_type)
       (\<lambda>file_type. ascii ''python tools/pipeline/extract-'' @ file_type @ ascii ''.py'')
       (\<lambda>file_type. file_type)
       file_types"

definition validate_phase :: "'w surroundings \<Rightarrow> str list \<Rightarrow> ('w, bool) action" where
  "validate_phase E file_types =
     run_phase E Validate (ascii ''PHASE 2: VALIDATION'') (ascii ''Validation'')
       (\<lambda>file_type. ascii ''Validating '' @ file_type)
       (\<lambda>file_type. ascii ''python tools/pipeline/validate-'' @ file_type @ ascii ''.py'')
       (\<lambda>file_type. file_type)
       file_types"

definition analyze_phase :: "'w surroundings \<Rightarrow> str list \<Rightarrow> ('w, bool) action" where
  "analyze_phase E analysis_types =
     run_phase E Analyze (ascii ''PHASE 3: ANALYSIS'') (ascii ''Analysis'')
       (\<lambda>analysis_type. ascii ''Analyzing '' @ analysis_type)
       (\<lambda>analysis_type. ascii ''python tools/pipeline/analyze-'' @ analysis_type @ ascii ''.py'')
       (\<lambda>analysis_type. analysis_type)
       analysis_types"

definition transform_phase ::
  "'w surroundings \<Rightarrow> (str \<times> str) list \<Rightarrow> ('w, bool) action" where
  "transform_phase E transformations =
     run_phase E Transform (ascii ''PHASE 4: TRANSFORMATION'') (ascii ''Transformation'')
       (\<lambda>(source, target). ascii ''Transforming '' @ source @ ascii '' to '' @ target)
       (\<lambda>(source, target). ascii ''python tools/pipeline/transform-'' @ source @ ascii ''-to-'' @ target @ ascii ''.py'')
       (\<lambda>(source, target). source @ ascii '' '' @ right_arrow @ ascii '' '' @ target)
       transformations"

subsection \<open>Artifact Stager\<close>

text \<open>\<open>os.path.splitext(file)[0].lower()\<close>: the stem a file is matched by.\<close>

definition stem :: "unicode \<Rightarrow> str \<Rightarrow> str" where
  "stem U file = lower U (fst (splitext file))"

text \<open>
  \<open>os.path.relpath(root, src_dir)\<close> for a \<open>root\<close> that \<open>os.walk\<close> reached from
  \<open>src_dir\<close> through the directories \<open>rel\<close>.
\<close>

fun relpath :: "str list \<Rightarrow> str" where
  "relpath [] = ascii ''.''"
| "relpath [d] = d"
| "relpath (d # ds) = d @ ascii ''/'' @ relpath ds"

text \<open>The inner loop of \<open>_copy_artifacts\<close>, over the files of one directory.\<close>

fun copy_files ::
  "'w surroundings \<Rightarrow> str set \<Rightarrow> str \<Rightarrow> str \<Rightarrow> str list \<Rightarrow> int \<Rightarrow> ('w, int) action" where
  "copy_files E successful_basenames root_path dest_dir [] copied_count = ret copied_count"
| "copy_files E successful_basenames root_path dest_dir (file # files) copied_count =
     (if stem (uni E) file \<in> successful_basenames
      then bnd (emit E (CopyFile (path_join root_path file) (path_join dest_dir file))) (\<lambda>_.
           copy_files E successful_basenames root_path dest_dir files (copied_count + 1))
      else copy_files E successful_basenames root_path dest_dir files copied_count)"

text \<open>
  The outer loop, over the directories that \<open>os.walk\<close> yields: a directory before its
  sub-directories, each sub-directory with all below it before the next.
\<close>

fun copy_tree ::
  "'w surroundings \<Rightarrow> str set \<Rightarrow> str \<Rightarrow> str \<Rightarrow> str list \<Rightarrow> dir \<Rightarrow> int
     \<Rightarrow> ('w, int) action"
and copy_subdirs ::
  "'w surroundings \<Rightarrow> str set \<Rightarrow> str \<Rightarrow> str \<Rightarrow> str list \<Rightarrow> (str \<times> dir) list \<Rightarrow> int
     \<Rightarrow> ('w, int) action" where
  "copy_tree E successful_basenames tgt_dir root_path rel (Dir files subdirs) copied_count =
     (let rel_path = relpath rel; dest_dir = path_join tgt_dir rel_path
      in bnd (emit E (MakeDirs dest_dir)) (\<lambda>_.
         bnd (copy_files E successful_basenames root_path dest_dir files copied_count) (\<lambda>copied_count.
         copy_subdirs E successful_basenames tgt_dir root_path rel subdirs copied_count)))"
| "copy_subdirs E successful_basenames tgt_dir root_path rel [] copied_count = ret copied_count"
| "copy_subdirs E successful_basenames tgt_dir root_path rel ((name, d) # subdirs) copied_count =
     bnd (copy_tree E successful_basenames tgt_dir (path_join root_path name) (rel @ [name]) d
            copied_count) (\<lambda>copied_count.
     copy_subdirs E successful_basenames tgt_dir root_path rel subdirs copied_count)"

text \<open>\<open>_copy_artifacts\<close>.\<close>

definition copy_artifacts :: "'w surroundings \<Rightarrow> str list \<Rightarrow> ('w, int) action" where
  "copy_artifacts E successful_artifacts = (\<lambda>s.
     bnd (print (ascii ''Copying validated artifacts to target directory...'')) (\<lambda>_.
     let src_dir = path_join (path_join (project_dir s) (ascii ''work'')) (ascii ''transformed'');
         tgt_dir = path_join (path_join (project_dir s) (ascii ''target'')) (ascii ''artifacts'')
     in bnd (emit E (MakeDirs tgt_dir)) (\<lambda>_.
        let successful_basenames = set (map (\<lambda>x. stem (uni E) (basename x)) successful_artifacts)
        in bnd (\<lambda>s1. case tree E (world s1) src_dir of
                        None \<Rightarrow> ret 0 s1
                      | Some t \<Rightarrow> copy_tree E successful_basenames tgt_dir src_dir [] t 0 s1)
             (\<lambda>copied_count.
        bnd (print (check_mark @ ascii '' Copied '' @ str_int copied_count @
                      ascii '' validated artifacts'' @ newline)) (\<lambda>_.
        ret copied_count)))) s)"

subsection \<open>Build Invoker\<close>

text \<open>The loop of \<open>_execute_build\<close> over the targets of the build tool.\<close>

fun build_steps ::
  "'w surroundings \<Rightarrow> str \<Rightarrow> str \<Rightarrow> str \<Rightarrow> str list \<Rightarrow> ('w, bool) action" where
  "build_steps E build_tool build_exec tgt_dir [] = ret True"
| "build_steps E build_tool build_exec tgt_dir (target # targets) = (\<lambda>s.
     let cmd = build_exec @ ascii '' '' @ target;
         log_name = build_tool @ ascii ''_'' @ target @ ascii ''_'' @ str_int (time_int E (world s)) @ ascii ''.log'';
         log_file = path_join (log_dir s) log_name
     in bnd (call E cmd log_file tgt_dir) (\<lambda>rc.
        let status = (if rc = 0 then check_mark else cross_mark)
        in bnd (print (status @ ascii '' '' @ build_tool @ ascii '' '' @ target)) (\<lambda>_.
           if rc \<noteq> 0 then ret False
           else build_steps E build_tool build_exec tgt_dir targets)) s)"

text \<open>\<open>_execute_build\<close>.\<close>

definition execute_build :: "'w surroundings \<Rightarrow> str \<Rightarrow> ('w, bool) action" where
  "execute_build E build_tool = (\<lambda>s.
     case which E (world s) build_tool of
       None \<Rightarrow>
         bnd (print (warning_sign @ ascii '' '' @ build_tool @ ascii '' not found, skipping build step.''))
           (\<lambda>_. ret False) s
     | Some build_exec \<Rightarrow>
         if build_exec = []
         then bnd (print (warning_sign @ ascii '' '' @ build_tool @ ascii '' not found, skipping build step.''))
                (\<lambda>_. ret False) s
         else
           let tgt_dir = path_join (path_join (project_dir s) (ascii ''target'')) (ascii ''artifacts'')
           in bnd (print (ascii ''Building artifacts using '' @ upper (uni E) build_tool @ ascii ''...'' @ newline)) (\<lambda>_.
              bnd (build_steps E build_tool build_exec tgt_dir [ascii ''clean'', ascii ''build'', ascii ''install''])
                (\<lambda>finished.
                if finished then bnd (print []) (\<lambda>_. ret True) else ret False)) s)"

subsection \<open>The build phase\<close>

definition transformation_log :: "'w state \<Rightarrow> str" where
  "transformation_log s = path_join (path_join (project_dir s) (ascii ''logs'')) (ascii ''transformation.log'')"

definition build_phase :: "'w surroundings \<Rightarrow> str \<Rightarrow> ('w, bool \<times> metrics) action" where
  "build_phase E build_tool =
     bnd (banner (ascii ''PHASE 5: BUILD'')) (\<lambda>_.
     bnd (\<lambda>s. ret (identify_successful_artifacts (uni E) (read_file E (world s) (transformation_log s))) s)
       (\<lambda>successful_artifacts.
     bnd (copy_artifacts E successful_artifacts) (\<lambda>copied_count.
     bnd (execute_build E build_tool) (\<lambda>build_success.
     bnd (\<lambda>s. case calculate_metrics (read_file E (world s) (transformation_log s))
                      successful_artifacts copied_count of
                 Inl e \<Rightarrow> raise e s
               | Inr m \<Rightarrow> ret m s) (\<lambda>metrics.
     ret (build_success, metrics))))))"

text \<open>\<open>print_final_metrics\<close>.\<close>

definition print_final_metrics :: "metrics \<Rightarrow> ('w, unit) action" where
  "print_final_metrics m =
     bnd (banner (ascii ''PIPELINE EXECUTION SUMMARY'')) (\<lambda>_.
     bnd (print (ascii ''Total Artifacts Processed:    '' @ str_int (total_artifacts m))) (\<lambda>_.
     bnd (print (ascii ''Successful Transformations:   '' @ str_int (successful_transforms m))) (\<lambda>_.
     bnd (print (ascii ''Artifacts Built:              '' @ str_int (copied_artifacts m))) (\<lambda>_.
     bnd (print (newline @ ascii ''Transformation Success Rate:  '' @
                   format_2f (transform_success_rate m) @ ascii ''%'')) (\<lambda>_.
     bnd (print (ascii ''Build Success Rate:           '' @
                   format_2f (build_success_rate m) @ ascii ''%'')) (\<lambda>_.
     print (newline @ replicate 60 (code (CHR ''='')) @ newline)))))))"

section \<open>The main workflow\<close>

text \<open>What the user types at the four prompts of \<open>main\<close>.\<close>

record answers =
  answer_project_dir :: str
  answer_snapshot :: str
  answer_app_name :: str
  answer_mode :: str

text \<open>\<open>input(prompt).strip()\<close>.\<close>

definition ask :: "'w surroundings \<Rightarrow> str \<Rightarrow> str \<Rightarrow> ('w, str) action" where
  "ask E prompt answer =
     (\<lambda>s. (Inr (strip (uni E) answer), s\<lparr>events := events s @ [Prompt prompt]\<rparr>))"

text \<open>\<open>PipelineOrchestrator(project_dir)\<close>.\<close>

definition init :: "'w surroundings \<Rightarrow> str \<Rightarrow> ('w, unit) action" where
  "init E dir = (\<lambda>s.
     (Inr (), s\<lparr>project_dir := dir,
                log_dir := path_join (script_dir E) (ascii ''runlogs''),
                execution_summary := (\<lambda>_. [])\<rparr>))"

text \<open>
  The snapshot that \<open>main\<close> selects. \<open>os.listdir\<close> and \<open>int\<close> may raise; this
  is outside the \<open>try\<close>.
\<close>

definition select_snapshot :: "'w surroundings \<Rightarrow> str \<Rightarrow> str \<Rightarrow> ('w, str) action" where
  "select_snapshot E dir answer = (\<lambda>s.
     let deliveries = path_join dir (ascii ''deliveries'')
     in if path_exists E (world s) deliveries
        then
          (case list_dir E (world s) deliveries of
             None \<Rightarrow> raise (Exception []) s
           | Some entries \<Rightarrow>
               let snapshots = filter (\<lambda>d. is_dir E (world s) (path_join deliveries d)) entries
               in bnd (print (ascii ''Available snapshots:'')) (\<lambda>_.
                  bnd (print_items 1 snapshots) (\<lambda>_.
                  bnd (print []) (\<lambda>_.
                  bnd (ask E (ascii ''Select snapshot (or press Enter for default): '') answer)
                    (\<lambda>snap_choice.
                  if isdigit (uni E) snap_choice
                  then (case int_of_digits (uni E) snap_choice 0 of
                          Inl e \<Rightarrow> raise e
                        | Inr n \<Rightarrow>
                            ret (if 1 \<le> n \<and> n \<le> int (length snapshots)
                                 then snapshots ! nat (n - 1)
                                 else ascii ''snapshot-1''))
                  else ret (ascii ''snapshot-1''))))) s)
        else ret (ascii ''snapshot-1'') s)"

text \<open>\<open>mode_names.get(mode, 'Unknown')\<close>.\<close>

definition mode_name :: "str \<Rightarrow> str" where
  "mode_name mode =
     (if mode = ascii ''1'' then ascii ''Analysis Only''
      else if mode = ascii ''2'' then ascii ''Transform and Build''
      else if mode = ascii ''3'' then ascii ''Full Pipeline''
      else ascii ''Unknown'')"

text \<open>
  \<open>main\<close> up to the \<open>try\<close>: the prompts, the two early exits, the environment
  variables, the orchestrator and its log directory. The result is the mode and the
  start time.
\<close>

definition main_setup :: "'w surroundings \<Rightarrow> answers \<Rightarrow> ('w, str \<times> pyfloat) action" where
  "main_setup E a =
     bnd (banner (ascii ''PIPELINE ORCHESTRATOR'')) (\<lambda>_.
     bnd (ask E (ascii ''Enter project directory path: '') (answer_project_dir a)) (\<lambda>dir.
     bnd (print []) (\<lambda>_.
     bnd (\<lambda>s. if \<not> is_dir E (world s) dir
               then bnd (print (cross_mark @ ascii '' Directory '' @ [39] @ dir @ [39] @
                                  ascii '' not found. Exiting.'')) (\<lambda>_. raise (SystemExit 1)) s
               else ret () s) (\<lambda>_.
     bnd (select_snapshot E dir (answer_snapshot a)) (\<lambda>snapshot.
     bnd (print []) (\<lambda>_.
     bnd (ask E (ascii ''Enter application name: '') (answer_app_name a)) (\<lambda>app_name.
     bnd (print []) (\<lambda>_.
     bnd (print (ascii ''Execution Modes:'')) (\<lambda>_.
     bnd (print (ascii ''  1. Analysis Only'')) (\<lambda>_.
     bnd (print (ascii ''  2. Transform and Build'')) (\<lambda>_.
     bnd (print (ascii ''  3. Full Pipeline (Analysis + Transform + Build)'')) (\<lambda>_.
     bnd (print (ascii ''  4. Exit'')) (\<lambda>_.
     bnd (print []) (\<lambda>_.
     bnd (ask E (ascii ''Select mode: '') (answer_mode a)) (\<lambda>mode.
     bnd (if mode = ascii ''4'' then bnd (print (ascii ''Exiting.'')) (\<lambda>_. raise (SystemExit 0))
          else ret ()) (\<lambda>_.
     bnd (print (newline @ check_mark @ ascii '' Selected: '' @ mode_name mode @ newline)) (\<lambda>_.
     bnd (emit E (SetEnv (ascii ''DELIVERY_DIR'') (ascii ''deliveries/'' @ snapshot))) (\<lambda>_.
     bnd (emit E (SetEnv (ascii ''SNAPSHOT_NAME'') snapshot)) (\<lambda>_.
     bnd (emit E (SetEnv (ascii ''APP_NAME'') app_name)) (\<lambda>_.
     bnd (init E dir) (\<lambda>_.
     bnd (\<lambda>s. if path_exists E (world s) (log_dir s) then emit E (RemoveTree (log_dir s)) s
               else ret () s) (\<lambda>_.
     bnd (\<lambda>s. emit E (MakeDirs (log_dir s)) s) (\<lambda>_.
     (\<lambda>s. ret (mode, clock E (world s)) s))))))))))))))))))))))))"

text \<open>\<open>elapsed = time.time() - start_time\<close>, formatted with two decimals.\<close>

definition elapsed_text :: "'w surroundings \<Rightarrow> pyfloat \<Rightarrow> 'w state \<Rightarrow> str" where
  "elapsed_text E start_time s = format_2f (fl_round (clock E (world s) - start_time))"

text \<open>
  The analysis workflow, for the modes 1 and 3. The result says whether \<open>main\<close>
  returns at the end of it, as it does in mode 1.
\<close>

definition analysis_workflow :: "'w surroundings \<Rightarrow> str \<Rightarrow> pyfloat \<Rightarrow> ('w, bool) action" where
  "analysis_workflow E mode start_time =
     bnd (extract_phase E [ascii ''source-files'', ascii ''config-files'', ascii ''data-files'', ascii ''metadata''])
       (\<lambda>ok. if \<not> ok then raise (SystemExit 1) else
     bnd (validate_phase E [ascii ''source-files'', ascii ''config-files'', ascii ''data-files''])
       (\<lambda>ok. if \<not> ok then raise (SystemExit 1) else
     bnd (analyze_phase E [ascii ''dependencies'', ascii ''patterns'', ascii ''metrics'', ascii ''quality''])
       (\<lambda>ok. if \<not> ok then raise (SystemExit 1) else
     if mode = ascii ''1''
     then bnd (print (check_mark @ ascii '' Analysis complete.'')) (\<lambda>_.
          bnd (\<lambda>s. print (newline @ ascii ''Total execution time: '' @ elapsed_text E start_time s @
                            ascii '' seconds'') s) (\<lambda>_.
          ret True))
     else ret False)))"

text \<open>The transform and build workflow, for the modes 2 and 3.\<close>

definition transform_workflow :: "'w surroundings \<Rightarrow> str \<Rightarrow> ('w, unit) action" where
  "transform_workflow E mode =
     bnd (if mode = ascii ''2''
          then bnd (extract_phase E [ascii ''source-files'', ascii ''config-files'', ascii ''data-files'', ascii ''metadata''])
                 (\<lambda>ok. if \<not> ok then raise (SystemExit 1) else
               bnd (validate_phase E [ascii ''source-files'', ascii ''config-files'', ascii ''data-files''])
                 (\<lambda>ok. if \<not> ok then raise (SystemExit 1) else ret ()))
          else ret ()) (\<lambda>_.
     bnd (transform_phase E [(ascii ''source-files'', ascii ''target-format''),
                             (ascii ''config-files'', ascii ''target-config''),
                             (ascii ''data-files'', ascii ''target-schema'')])
       (\<lambda>ok. if \<not> ok then raise (SystemExit 1) else
     bnd (build_phase E (ascii ''ant'')) (\<lambda>(build_success, metrics).
     bnd (print_final_metrics metrics) (\<lambda>_.
     if build_success then print (check_mark @ ascii '' Pipeline completed successfully'')
     else print (warning_sign @ ascii '' Pipeline completed with warnings'')))))"

text \<open>The body of the \<open>try\<close>.\<close>

definition main_body :: "'w surroundings \<Rightarrow> str \<Rightarrow> pyfloat \<Rightarrow> ('w, unit) action" where
  "main_body E mode start_time =
     bnd (if mode = ascii ''1'' \<or> mode = ascii ''3'' then analysis_workflow E mode start_time else ret False)
       (\<lambda>returned.
     if returned then ret ()
     else bnd (if mode = ascii ''2'' \<or> mode = ascii ''3'' then transform_workflow E mode else ret ()) (\<lambda>_.
          (\<lambda>s. print (ascii ''Total execution time: '' @ elapsed_text E start_time s @
                        ascii '' seconds'' @ newline) s)))"

text \<open>\<open>str(e)\<close> of an exception that \<open>except Exception\<close> catches.\<close>

definition message :: "exn \<Rightarrow> str" where
  "message e = (case e of Exception msg \<Rightarrow> msg | ZeroDivisionError \<Rightarrow> ascii ''division by zero'' | _ \<Rightarrow> [])"

text \<open>
  The \<open>try\<close> with its two handlers. \<open>SystemExit\<close> is no \<open>Exception\<close>: a \<open>sys.exit\<close>
  in the body passes through both.
\<close>

definition main_guarded :: "'w surroundings \<Rightarrow> str \<Rightarrow> pyfloat \<Rightarrow> ('w, unit) action" where
  "main_guarded E mode start_time = (\<lambda>s.
     case main_body E mode start_time s of
       (Inr u, s') \<Rightarrow> (Inr u, s')
     | (Inl KeyboardInterrupt, s') \<Rightarrow>
         bnd (print (newline @ newline @ warning_sign @ ascii '' Pipeline interrupted by user.''))
           (\<lambda>_. raise (SystemExit 1)) s'
     | (Inl (SystemExit n), s') \<Rightarrow> (Inl (SystemExit n), s')
     | (Inl e, s') \<Rightarrow>
         bnd (print (newline @ cross_mark @ ascii '' Pipeline failed with error: '' @ message e))
           (\<lambda>_. raise (SystemExit 1)) s')"

definition initial :: "'w \<Rightarrow> 'w state" where
  "initial w = \<lparr>project_dir = [], log_dir = [], execution_summary = (\<lambda>_. []), events = [],
                world = w\<rparr>"

text \<open>
  The exit status of the process: 0 when \<open>main\<close> returns, the argument of \<open>sys.exit\<close>,
  and 1 for any other exception that leaves \<open>main\<close>.
\<close>

definition exit_status :: "exn + 'a \<Rightarrow> int" where
  "exit_status r = (case r of Inr _ \<Rightarrow> 0 | Inl (SystemExit n) \<Rightarrow> n | Inl _ \<Rightarrow> 1)"

definition main :: "'w surroundings \<Rightarrow> answers \<Rightarrow> 'w \<Rightarrow> int \<times> 'w state" where
  "main E a w =
     (case bnd (main_setup E a) (\<lambda>(mode, start_time). main_guarded E mode start_time) (initial w) of
        (r, s) \<Rightarrow> (exit_status r, s))"

section \<open>Notions the properties are stated with\<close>

subsection \<open>Records of the transformation log\<close>

text \<open>The name that the selector takes from a line, if it takes one.\<close>

definition selected_name :: "unicode \<Rightarrow> str \<Rightarrow> str option" where
  "selected_name U line = map_option group1 (re_search U pattern line)"




text \<open>A Unicode database that knows no character beyond ASCII, to try the properties on.\<close>

definition plain :: unicode where
  "plain = \<lparr>uni_space = (\<lambda>c. False), uni_alnum = (\<lambda>c. False), uni_digit = (\<lambda>c. False),
            uni_decimal = (\<lambda>c. None), uni_lower = (\<lambda>s. s), uni_upper = (\<lambda>s. s)\<rparr>"


definition ten_records :: str where
  "ten_records = ascii ''| a.src | 0 |'' @ newline @ ascii ''| b.src | 0 |'' @ newline @
     ascii ''| c.src | 0 |'' @ newline @ ascii ''| d.dat | 0 |'' @ newline @
     ascii ''| e.dat | 0 |'' @ newline @ ascii ''| f.dat | 0 |'' @ newline @
     ascii ''| g.cfg | 0 |'' @ newline @ ascii ''| h.cfg | 0 |'' @ newline @
     ascii ''| i.cfg | 4 |'' @ newline @ ascii ''| j.cfg | 1 |'' @ newline"

definition two_records :: str where
  "two_records = ascii ''| a.dat | 0 |'' @ newline @ ascii ''| report.xml | 0 |'' @ newline"

subsection \<open>Traces\<close>

text \<open>The shell commands of a run, each with what it came back with, in order.\<close>

fun calls_of :: "event list \<Rightarrow> (str \<times> outcome) list" where
  "calls_of [] = []"
| "calls_of (Call cmd log_file cwd result # evs) = (cmd, result) # calls_of evs"
| "calls_of (_ # evs) = calls_of evs"

text \<open>The calls made between a state and a later one.\<close>

definition new_calls :: "'w state \<Rightarrow> 'w state \<Rightarrow> (str \<times> outcome) list" where
  "new_calls s s' = drop (length (calls_of (events s))) (calls_of (events s'))"


text \<open>The lines that a run printed, in order.\<close>

fun printed :: "event list \<Rightarrow> str list" where
  "printed [] = []"
| "printed (Print text # evs) = text # printed evs"
| "printed (_ # evs) = printed evs"

text \<open>
  A phase is entered when its method starts, which shows as its title on the standard
  output.
\<close>

definition phase_of_title :: "str \<Rightarrow> phase option" where
  "phase_of_title text =
     (if text = ascii ''PHASE 1: EXTRACTION'' then Some Extract
      else if text = ascii ''PHASE 2: VALIDATION'' then Some Validate
      else if text = ascii ''PHASE 3: ANALYSIS'' then Some Analyze
      else if text = ascii ''PHASE 4: TRANSFORMATION'' then Some Transform
      else if text = ascii ''PHASE 5: BUILD'' then Some Build
      else None)"

definition phases_entered :: "event list \<Rightarrow> phase list" where
  "phases_entered evs = List.map_filter phase_of_title (printed evs)"

subsection \<open>Staging\<close>



text \<open>The source and the target directory of the Artifact Stager.\<close>

definition src_dir :: "'w state \<Rightarrow> str" where
  "src_dir s = path_join (path_join (project_dir s) (ascii ''work'')) (ascii ''transformed'')"

definition tgt_dir :: "'w state \<Rightarrow> str" where
  "tgt_dir s = path_join (path_join (project_dir s) (ascii ''target'')) (ascii ''artifacts'')"

text \<open>A state after further operations on the file system.\<close>

definition after_events :: "'w surroundings \<Rightarrow> event list \<Rightarrow> 'w state \<Rightarrow> 'w state" where
  "after_events E evs s = s\<lparr>events := events s @ evs, world := fold (effect E) evs (world s)\<rparr>"





subsection \<open>Surroundings to try the properties on\<close>




section \<open>Properties\<close>

subsection \<open>Artifact Selector\<close>




























text \<open>
  The classes of the pattern on ASCII: every ASCII whitespace character may stand around
  the name and the count, letters of both cases, digits and the underscore make an
  extension, and a hyphen does not.
\<close>

lemma selected_name_ascii:
  "selected_name U (ascii ''|'' @ [9, 10, 11, 12, 28, 29, 30, 31, 32] @ ascii ''A_z09.Q_a5'' @ [13] @
      ascii ''|'' @ [32, 9] @ ascii ''0'' @ [31] @ ascii ''|'') = Some (ascii ''A_z09.Q_a5'')"
  "selected_name U (ascii ''| a.d-t | 0 |'') = None"
  "selected_name U (ascii ''| a.dat | 00 |'') = None"
  "selected_name U (ascii ''| a.dat | 0'' @ [0] @ ascii ''|'') = None"
  by (simp_all add: selected_name_def pattern_def is_space_def is_word_def is_ascii_def ascii_def
        code_def group1_def)




subsection \<open>Metrics Calculator\<close>

lemma rate_no_zero_division: "rate n tot \<noteq> Inl e"
  by (simp add: rate_def int_truediv_def)

lemma rate_value:
  "rate n tot = Inr (if tot \<noteq> 0 then float_mul_int (fl_round (of_int n / of_int tot)) 100 else 0)"
  by (simp add: rate_def int_truediv_def)

lemma rate_pos:
  "tot \<noteq> 0 \<Longrightarrow> rate n tot = Inr (float_mul_int (fl_round (of_int n / of_int tot)) 100)"
  by (simp add: rate_def int_truediv_def)

lemma count_artifacts_filter:
  "count_artifacts ls n = n + int (length (filter counted_line ls))"
  by (induction ls arbitrary: n) simp_all

lemma count_total_nonneg: "0 \<le> count_total log_file"
  by (simp add: count_total_def count_artifacts_filter split: option.splits)

lemma starts_with_iff: "starts_with sub s = (\<exists>b. s = sub @ b)"
  by (induction sub s rule: starts_with.induct) auto

lemma contains_iff: "contains sub s = (\<exists>a b. s = a @ sub @ b)"
proof (induction s)
  case Nil
  then show ?case by auto
next
  case (Cons x xs)
  show ?case
  proof
    assume "contains sub (x # xs)"
    then consider "starts_with sub (x # xs)" | "contains sub xs" by auto
    then show "\<exists>a b. x # xs = a @ sub @ b"
    proof cases
      case 1
      then obtain b where "x # xs = [] @ sub @ b" using starts_with_iff by auto
      then show ?thesis by blast
    next
      case 2
      then obtain a b where "xs = a @ sub @ b" using Cons.IH by auto
      then have "x # xs = (x # a) @ sub @ b" by simp
      then show ?thesis by blast
    qed
  next
    assume "\<exists>a b. x # xs = a @ sub @ b"
    then obtain a b where ab: "x # xs = a @ sub @ b" by blast
    show "contains sub (x # xs)"
    proof (cases a)
      case Nil
      then have "starts_with sub (x # xs)" using ab starts_with_iff by auto
      then show ?thesis by simp
    next
      case (Cons y ys)
      then have "xs = ys @ sub @ b" using ab by simp
      then have "contains sub xs" using Cons.IH by blast
      then show ?thesis by simp
    qed
  qed
qed

text \<open>
  C5: when the count of total artifacts is 0, both rates are 0 whatever the selected
  artifacts and the copied count are; no division has a zero divisor, so that the
  calculation never raises.
\<close>

theorem metrics_zero_total:
  "(count_total log_file = 0 \<longrightarrow>
      calculate_metrics log_file successful_artifacts copied_count =
        Inr \<lparr>total_artifacts = 0,
             successful_transforms = int (length successful_artifacts),
             copied_artifacts = copied_count,
             transform_success_rate = 0,
             build_success_rate = 0\<rparr>)
   \<and> (\<forall>n tot. rate n tot \<noteq> Inl ZeroDivisionError)
   \<and> (\<forall>e. calculate_metrics log_file successful_artifacts copied_count \<noteq> Inl e)"
  by (simp add: calculate_metrics_def Let_def rate_value)

text \<open>With no log the total is 0, and both rates are 0 for two selected and five copied.\<close>

theorem metrics_zero_total_witness:
  "count_total None = 0 \<and>
   calculate_metrics None [ascii ''a.dat'', ascii ''b.cfg''] 5 =
     Inr \<lparr>total_artifacts = 0, successful_transforms = 2, copied_artifacts = 5,
          transform_success_rate = 0, build_success_rate = 0\<rparr>"
proof -
  have z: "count_total None = 0" by (simp add: count_total_def)
  show ?thesis
    using z metrics_zero_total [of None "[ascii ''a.dat'', ascii ''b.cfg'']" 5] by simp
qed

lemma rates_10: "rate 8 10 = Inr 80" "rate 6 10 = Inr 60"
  by code_simp+

lemma rates_1: "rate 2 1 = Inr 200" "rate 0 1 = Inr 0"
  by code_simp+

text \<open>
  C9: when the count of total artifacts is positive, the transform rate is the number
  of selected artifacts divided by the total, times 100, and the build rate is the
  copied count divided by the total, times 100, both in the arithmetic of Python
  floats; the counts are reported as they are. With a total of 10, 8 selected and 6
  copied the rates are 80.0 and 60.0.
\<close>

theorem metrics_rates:
  "(0 < count_total log_file \<longrightarrow>
      calculate_metrics log_file successful_artifacts copied_count =
        Inr \<lparr>total_artifacts = count_total log_file,
             successful_transforms = int (length successful_artifacts),
             copied_artifacts = copied_count,
             transform_success_rate =
               float_mul_int (fl_round (of_int (int (length successful_artifacts))
                                        / of_int (count_total log_file))) 100,
             build_success_rate =
               float_mul_int (fl_round (of_int copied_count / of_int (count_total log_file))) 100\<rparr>)
   \<and> (count_total log_file = 10 \<and> length successful_artifacts = 8 \<longrightarrow>
        calculate_metrics log_file successful_artifacts 6 =
          Inr \<lparr>total_artifacts = 10, successful_transforms = 8, copied_artifacts = 6,
               transform_success_rate = 80, build_success_rate = 60\<rparr>)"
proof (intro conjI impI)
  assume "0 < count_total log_file"
  then show "calculate_metrics log_file successful_artifacts copied_count =
        Inr \<lparr>total_artifacts = count_total log_file,
             successful_transforms = int (length successful_artifacts),
             copied_artifacts = copied_count,
             transform_success_rate =
               float_mul_int (fl_round (of_int (int (length successful_artifacts))
                                        / of_int (count_total log_file))) 100,
             build_success_rate =
               float_mul_int (fl_round (of_int copied_count / of_int (count_total log_file))) 100\<rparr>"
    by (simp add: calculate_metrics_def Let_def rate_value)
next
  assume "count_total log_file = 10 \<and> length successful_artifacts = 8"
  then show "calculate_metrics log_file successful_artifacts 6 =
          Inr \<lparr>total_artifacts = 10, successful_transforms = 8, copied_artifacts = 6,
               transform_success_rate = 80, build_success_rate = 60\<rparr>"
    by (simp add: calculate_metrics_def Let_def rates_10)
qed

text \<open>A log of ten records, eight of them without errors, with six files copied.\<close>

theorem metrics_rates_witness:
  "0 < count_total (Some ten_records)
   \<and> count_total (Some ten_records) = 10
   \<and> length (identify_successful_artifacts plain (Some ten_records)) = 8
   \<and> calculate_metrics (Some ten_records) (identify_successful_artifacts plain (Some ten_records)) 6 =
       Inr \<lparr>total_artifacts = 10, successful_transforms = 8, copied_artifacts = 6,
            transform_success_rate = 80, build_success_rate = 60\<rparr>"
proof -
  have c: "count_total (Some ten_records) = 10"
    by (simp add: ten_records_def count_total_def file_lines_def counted_line_def newline_def ascii_def code_def)
  have l: "length (identify_successful_artifacts plain (Some ten_records)) = 8"
    by (simp add: ten_records_def identify_successful_artifacts_def file_lines_def pattern_def
          is_space_def is_word_def is_ascii_def ascii_def code_def group1_def newline_def)
  have p: "0 < count_total (Some ten_records)"
    using c by simp
  show ?thesis
    using p c l
      metrics_rates [of "Some ten_records" "identify_successful_artifacts plain (Some ten_records)" 6]
    by blast
qed

text \<open>
  C10, as stated: for the log whose only line is \<open>| report.xml | 0 |\<close> the transform
  rate exceeds 100. It does not: the selector counts the record and the total does
  not, so that one successful transform stands against a total of zero, and with a
  total of zero the rate is 0.
\<close>

theorem success_rate_bound_counterexample:
  "calculate_metrics (Some (ascii ''| report.xml | 0 |''))
     (identify_successful_artifacts plain (Some (ascii ''| report.xml | 0 |''))) 0 =
     Inr \<lparr>total_artifacts = 0, successful_transforms = 1, copied_artifacts = 0,
          transform_success_rate = 0, build_success_rate = 0\<rparr>"
  by (simp add: calculate_metrics_def Let_def rate_value count_total_def file_lines_def
        counted_line_def identify_successful_artifacts_def pattern_def
        is_space_def is_word_def is_ascii_def ascii_def code_def group1_def)

text \<open>
  C10, amended: the number of successful transforms is not bounded by the total. A line
  counts for the total when it has a pipe and one of \<open>.src\<close>, \<open>.dat\<close>, \<open>.cfg\<close>
  anywhere in it. For the log with the lines \<open>| a.dat | 0 |\<close> and
  \<open>| report.xml | 0 |\<close> the selector takes both records and the total counts one: 2
  successful transforms of 1 artifact, a rate of 200. For the log whose only line
  is \<open>| report.xml | 0 |\<close> there is 1 successful transform and a total of 0.
\<close>

theorem success_rate_unbounded:
  "identify_successful_artifacts U (Some two_records) = [ascii ''a.dat'', ascii ''report.xml'']
   \<and> count_total (Some two_records) = 1
   \<and> calculate_metrics (Some two_records) (identify_successful_artifacts U (Some two_records)) 0 =
       Inr \<lparr>total_artifacts = 1, successful_transforms = 2, copied_artifacts = 0,
            transform_success_rate = 200, build_success_rate = 0\<rparr>
   \<and> identify_successful_artifacts U (Some (ascii ''| report.xml | 0 |'')) = [ascii ''report.xml'']
   \<and> count_total (Some (ascii ''| report.xml | 0 |'')) = 0
   \<and> (\<forall>content. count_total (Some content) = int (length (filter counted_line (file_lines content))))
   \<and> (\<forall>line. counted_line line =
         ((\<exists>a b. line = a @ ascii ''|'' @ b) \<and>
          ((\<exists>a b. line = a @ ascii ''.src'' @ b) \<or> (\<exists>a b. line = a @ ascii ''.dat'' @ b)
            \<or> (\<exists>a b. line = a @ ascii ''.cfg'' @ b))))"
proof (intro conjI allI)
  show i: "identify_successful_artifacts U (Some two_records) = [ascii ''a.dat'', ascii ''report.xml'']"
    by (simp add: two_records_def identify_successful_artifacts_def file_lines_def pattern_def
          is_space_def is_word_def is_ascii_def ascii_def code_def group1_def newline_def)
  show c: "count_total (Some two_records) = 1"
    by (simp add: two_records_def count_total_def file_lines_def counted_line_def newline_def ascii_def code_def)
  show "calculate_metrics (Some two_records) (identify_successful_artifacts U (Some two_records)) 0 =
       Inr \<lparr>total_artifacts = 1, successful_transforms = 2, copied_artifacts = 0,
            transform_success_rate = 200, build_success_rate = 0\<rparr>"
    unfolding i by (simp add: calculate_metrics_def Let_def c rates_1)
  show "identify_successful_artifacts U (Some (ascii ''| report.xml | 0 |'')) = [ascii ''report.xml'']"
    by (simp add: identify_successful_artifacts_def file_lines_def pattern_def
          is_space_def is_word_def is_ascii_def ascii_def code_def group1_def)
  show "count_total (Some (ascii ''| report.xml | 0 |'')) = 0"
    by (simp add: count_total_def file_lines_def counted_line_def ascii_def code_def)
  show "count_total (Some content) = int (length (filter counted_line (file_lines content)))" for content
    by (simp add: count_total_def count_artifacts_filter)
  show "counted_line line =
         ((\<exists>a b. line = a @ ascii ''|'' @ b) \<and>
          ((\<exists>a b. line = a @ ascii ''.src'' @ b) \<or> (\<exists>a b. line = a @ ascii ''.dat'' @ b)
            \<or> (\<exists>a b. line = a @ ascii ''.cfg'' @ b)))" for line
    unfolding counted_line_def contains_iff by simp
qed

subsection \<open>Statements and states\<close>



lemma raise_apply: "raise e s = (Inl e, s)"
  by (simp add: raise_def)






lemma after_events_fields:
  "events (after_events E evs s) = events s @ evs"
  "project_dir (after_events E evs s) = project_dir s"
  "log_dir (after_events E evs s) = log_dir s"
  "execution_summary (after_events E evs s) = execution_summary s"
  "world (after_events E evs s) = fold (effect E) evs (world s)"
  by (simp_all add: after_events_def)



subsection \<open>Artifact Stager\<close>










end
